theory Spec2Isabelle
  imports Complex_Main "HOL-Library.Log_Nat" "HOL-Library.Sublist"
begin

section \<open>JavaScript numbers\<close>

text \<open>
  Every number of \<^verbatim>\<open>script.js\<close> (a price, a quantity, a total) is an ECMAScript Number: an
  IEEE 754 binary64 value: \<^verbatim>\<open>NaN\<close>, one of the two infinities, or a finite value, which is
  carried by the rational it denotes. The two zeros are identified, since the program
  never divides and neither \<^verbatim>\<open>===\<close> nor \<^verbatim>\<open>toFixed\<close> tells them apart.
\<close>

datatype number = NaN | PosInfinity | NegInfinity | Fin rat

definition pow2 :: "int \<Rightarrow> rat" where
  "pow2 e = (if 0 \<le> e then 2 ^ nat e else 1 / 2 ^ nat (- e))"

text \<open>Rounding to the nearest integer, a tie going to the even neighbour.\<close>

definition round_ties_even :: "rat \<Rightarrow> int" where
  "round_ties_even x =
     (let n = \<lfloor>x\<rfloor>; r = x - of_int n
      in if r < 1 / 2 then n else if 1 / 2 < r then n + 1 else if even n then n else n + 1)"

text \<open>
  The binade of a non-zero \<open>x\<close> is the \<open>e\<close> with \<open>2\<^sup>e \<le> \<bar>x\<bar> < 2\<^sup>e\<^sup>+\<^sup>1\<close>: one less than the bit
  length of the integer part when \<open>1 \<le> \<bar>x\<bar>\<close>, and minus the bit length of
  \<open>\<lceil>1 / \<bar>x\<bar>\<rceil> - 1\<close> below 1.
\<close>

definition binade :: "rat \<Rightarrow> int" where
  "binade x =
     (if 1 \<le> \<bar>x\<bar> then bitlen \<lfloor>\<bar>x\<bar>\<rfloor> - 1 else - bitlen (\<lceil>1 / \<bar>x\<bar>\<rceil> - 1))"

text \<open>
  The result of an arithmetic operation or of a decimal literal is the exact value rounded
  to 53 significant bits, ties to even. Below \<open>2\<^sup>-\<^sup>1\<^sup>0\<^sup>2\<^sup>2\<close> the spacing stays that of the
  smallest normal binade (subnormal numbers); a rounded magnitude of \<open>2\<^sup>1\<^sup>0\<^sup>2\<^sup>4\<close> or more
  overflows to an infinity.
\<close>

definition round_double :: "rat \<Rightarrow> number" where
  "round_double x =
     (if x = 0 then Fin 0
      else let e = max (binade x) (- 1022);
               ulp = pow2 (e - 52);
               y = of_int (round_ties_even (x / ulp)) * ulp
           in if pow2 1024 \<le> \<bar>y\<bar> then (if 0 < x then PosInfinity else NegInfinity)
              else Fin y)"

text \<open>The operators \<^verbatim>\<open>+\<close> and \<^verbatim>\<open>*\<close> on Numbers, and the literals \<^verbatim>\<open>0\<close> and \<^verbatim>\<open>1\<close>.\<close>

instantiation number :: "{zero, one, plus, times}"
begin

definition zero_number :: number where
  "zero_number = Fin 0"

definition one_number :: number where
  "one_number = Fin 1"

fun plus_number :: "number \<Rightarrow> number \<Rightarrow> number" where
  "plus_number NaN y = NaN"
| "plus_number x NaN = NaN"
| "plus_number PosInfinity NegInfinity = NaN"
| "plus_number NegInfinity PosInfinity = NaN"
| "plus_number PosInfinity y = PosInfinity"
| "plus_number NegInfinity y = NegInfinity"
| "plus_number (Fin a) PosInfinity = PosInfinity"
| "plus_number (Fin a) NegInfinity = NegInfinity"
| "plus_number (Fin a) (Fin b) = round_double (a + b)"

fun times_number :: "number \<Rightarrow> number \<Rightarrow> number" where
  "times_number NaN y = NaN"
| "times_number x NaN = NaN"
| "times_number PosInfinity PosInfinity = PosInfinity"
| "times_number PosInfinity NegInfinity = NegInfinity"
| "times_number NegInfinity PosInfinity = NegInfinity"
| "times_number NegInfinity NegInfinity = PosInfinity"
| "times_number PosInfinity (Fin b) =
     (if b = 0 then NaN else if 0 < b then PosInfinity else NegInfinity)"
| "times_number NegInfinity (Fin b) =
     (if b = 0 then NaN else if 0 < b then NegInfinity else PosInfinity)"
| "times_number (Fin a) PosInfinity =
     (if a = 0 then NaN else if 0 < a then PosInfinity else NegInfinity)"
| "times_number (Fin a) NegInfinity =
     (if a = 0 then NaN else if 0 < a then NegInfinity else PosInfinity)"
| "times_number (Fin a) (Fin b) = round_double (a * b)"

instance ..

end

text \<open>
  \<^verbatim>\<open>x.toFixed(2)\<close> prints the decimal \<open>n / 100\<close> whose integer \<open>n\<close> is nearest to \<open>100 x\<close>,
  the larger one at a tie, behind the sign of \<open>x\<close>. The printed decimal is returned as a
  rational; \<open>None\<close> stands for the outputs that are no two-decimal numeral (\<^verbatim>\<open>NaN\<close>, an
  infinity, the exponent notation from \<open>10\<^sup>2\<^sup>1\<close> on).
\<close>

fun toFixed2 :: "number \<Rightarrow> rat option" where
  "toFixed2 (Fin x) =
     (if \<bar>x\<bar> < 10 ^ 21
      then Some ((if x < 0 then - 1 else 1) * of_int \<lfloor>\<bar>x\<bar> * 100 + 1 / 2\<rfloor> / 100)
      else None)"
| "toFixed2 x = None"

section \<open>The classes of the cart\<close>

text \<open>
  \<^verbatim>\<open>class Product { constructor(id, name, price) }\<close>: the field \<^verbatim>\<open>id\<close> is \<open>id_of\<close> here.
  The catalog's ids are integers, compared with \<^verbatim>\<open>===\<close>.
\<close>

record Product =
  id_of :: int
  name :: string
  price :: number

text \<open>\<^verbatim>\<open>class ShoppingCartItem { constructor(product, quantity) }\<close>\<close>

record ShoppingCartItem =
  product :: Product
  quantity :: number

text \<open>\<^verbatim>\<open>calculateTotal() { return this.product.price * this.quantity; }\<close>\<close>

definition calculateTotal :: "ShoppingCartItem \<Rightarrow> number" where
  "calculateTotal item = price (product item) * quantity item"

text \<open>\<^verbatim>\<open>class ShoppingCart { constructor() { this.items = []; } }\<close>\<close>

record ShoppingCart =
  items :: "ShoppingCartItem list"

definition new_ShoppingCart :: ShoppingCart where
  "new_ShoppingCart = \<lparr>items = []\<rparr>"

text \<open>
  \<^verbatim>\<open>getTotal() { return this.items.reduce((total, item) => total + item.calculateTotal(), 0); }\<close>
  \<^verbatim>\<open>reduce\<close> with an initial value is a fold from the left.
\<close>

definition getTotal :: "ShoppingCart \<Rightarrow> number" where
  "getTotal c = foldl (\<lambda>total item. total + calculateTotal item) 0 (items c)"

text \<open>
  \<^verbatim>\<open>Array.prototype.find\<close> returns the first element that satisfies the predicate, by
  reference. \<open>addItem\<close> writes through that reference, so the model returns the position of
  the element in the array.
\<close>

fun find_ref :: "('a \<Rightarrow> bool) \<Rightarrow> 'a list \<Rightarrow> nat option" where
  "find_ref P [] = None"
| "find_ref P (x # xs) = (if P x then Some 0 else map_option Suc (find_ref P xs))"

text \<open>
  \<^verbatim>\<open>
  addItem(product, quantity = 1) {
      const existingItem = this.items.find(item => item.product.id === product.id);
      if (existingItem) {
          existingItem.quantity += quantity;
      } else {
          const newItem = new ShoppingCartItem(product, quantity);
          this.items.push(newItem);
      }
  }
  \<close>
  The second argument is optional: \<open>None\<close> is a call without it, which takes the default 1.
\<close>

definition addItem :: "ShoppingCart \<Rightarrow> Product \<Rightarrow> number option \<Rightarrow> ShoppingCart" where
  "addItem c p quantity_arg =
     (let q = (case quantity_arg of None \<Rightarrow> 1 | Some q' \<Rightarrow> q')
      in case find_ref (\<lambda>item. id_of (product item) = id_of p) (items c) of
           Some i \<Rightarrow>
             c\<lparr>items := (items c)[i := (items c ! i)\<lparr>quantity := quantity (items c ! i) + q\<rparr>]\<rparr>
         | None \<Rightarrow> c\<lparr>items := items c @ [\<lparr>product = p, quantity = q\<rparr>]\<rparr>)"

text \<open>
  \<^verbatim>\<open>removeItem(productId) { this.items = this.items.filter(item => item.product.id !== productId); }\<close>
\<close>

definition removeItem :: "ShoppingCart \<Rightarrow> int \<Rightarrow> ShoppingCart" where
  "removeItem c productId = c\<lparr>items := filter (\<lambda>item. id_of (product item) \<noteq> productId) (items c)\<rparr>"

section \<open>The catalog and the page's entry points\<close>

text \<open>
  \<^verbatim>\<open>const products = [new Product(1, "Laptop", 999.99), ...]\<close>. A decimal literal denotes the
  double nearest to it.
\<close>

definition products :: "Product list" where
  "products =
     [\<lparr>id_of = 1, name = ''Laptop'', price = round_double (99999 / 100)\<rparr>,
      \<lparr>id_of = 2, name = ''Smartphone'', price = round_double (59999 / 100)\<rparr>,
      \<lparr>id_of = 3, name = ''Headphones'', price = round_double (19999 / 100)\<rparr>,
      \<lparr>id_of = 4, name = ''Smart Watch'', price = round_double (24950 / 100)\<rparr>,
      \<lparr>id_of = 5, name = ''Tablet'', price = round_double (39900 / 100)\<rparr>,
      \<lparr>id_of = 6, name = ''Keyboard'', price = round_double (4999 / 100)\<rparr>]"

text \<open>
  The program's state is the cart \<^verbatim>\<open>myCart\<close> and the page (the document and the console).
  \<^verbatim>\<open>updateCartUI\<close> reads the cart and writes the page only; what it writes, and whether it
  throws on the way (a missing element of the document), depends on the document, which
  is no part of the script. It is a parameter: from the cart and the page it gives the
  page it leaves and the exception it throws, if any. \<^verbatim>\<open>displayCart\<close>, which it calls,
  writes the same lines to the console and belongs to it.
\<close>

record 'u app =
  myCart :: ShoppingCart
  page :: 'u

type_synonym ('u, 'e) ui = "ShoppingCart \<Rightarrow> 'u \<Rightarrow> 'u \<times> 'e option"

text \<open>
  \<^verbatim>\<open>
  window.addToCart = function(productId) {
      const product = products.find(p => p.id === productId);
      if (product) {
          myCart.addItem(product);
          updateCartUI();
      }
  };
  \<close>
  The result is the state after the call and the exception that escapes it, if any.
\<close>

definition addToCart :: "('u, 'e) ui \<Rightarrow> 'u app \<Rightarrow> int \<Rightarrow> 'u app \<times> 'e option" where
  "addToCart updateCartUI st productId =
     (case find (\<lambda>p. id_of p = productId) products of
        Some p \<Rightarrow>
          (let cart = addItem (myCart st) p None;
               (pg, exn) = updateCartUI cart (page st)
           in (st\<lparr>myCart := cart, page := pg\<rparr>, exn))
      | None \<Rightarrow> (st, None))"

text \<open>
  \<^verbatim>\<open>
  window.removeFromCart = function(productId) {
      myCart.removeItem(productId);
      updateCartUI();
  };
  \<close>
\<close>

definition removeFromCart :: "('u, 'e) ui \<Rightarrow> 'u app \<Rightarrow> int \<Rightarrow> 'u app \<times> 'e option" where
  "removeFromCart updateCartUI st productId =
     (let cart = removeItem (myCart st) productId;
          (pg, exn) = updateCartUI cart (page st)
      in (st\<lparr>myCart := cart, page := pg\<rparr>, exn))"

text \<open>
  The catalog entries of the scenario: \<^verbatim>\<open>products[0]\<close> (Laptop, 999.99) and \<^verbatim>\<open>products[2]\<close>
  (Headphones, 199.99), and the cart after each of its five steps, from a new cart.
\<close>

definition Laptop :: Product where
  "Laptop = products ! 0"

definition Headphones :: Product where
  "Headphones = products ! 2"

definition step1 :: ShoppingCart where
  "step1 = addItem new_ShoppingCart Laptop (Some 1)"

definition step2 :: ShoppingCart where
  "step2 = addItem step1 Laptop (Some 1)"

definition step3 :: ShoppingCart where
  "step3 = addItem step2 Headphones (Some 1)"

definition step4 :: ShoppingCart where
  "step4 = removeItem step3 (id_of Laptop)"

definition step5 :: ShoppingCart where
  "step5 = removeItem step4 (id_of Laptop)"

section \<open>Evaluating the arithmetic\<close>

lemma floor_rat_numeral_div:
  "\<lfloor>(numeral a :: rat) / numeral b\<rfloor> = numeral a div numeral b"
  using floor_divide_of_int_eq [of "numeral a" "numeral b", where ?'a = rat] by simp

lemma ceiling_rat_numeral_div:
  "\<lceil>(numeral a :: rat) / numeral b\<rceil> = - (- numeral a div numeral b)"
  using ceiling_divide_eq_div [of "numeral a" "numeral b", where ?'a = rat] by simp

lemma bitlen_one: "bitlen 1 = 1"
  by (subst compute_bitlen) simp

lemma bitlen_Bit0: "bitlen (numeral (Num.Bit0 n)) = bitlen (numeral n) + 1"
  by (subst compute_bitlen) simp

lemma bitlen_Bit1: "bitlen (numeral (Num.Bit1 n)) = bitlen (numeral n) + 1"
  by (subst compute_bitlen) simp

lemma floor_rat_neg_numeral_div:
  "\<lfloor>- ((numeral a :: rat) / numeral b)\<rfloor> = - numeral a div numeral b"
  using floor_divide_of_int_eq [of "- numeral a" "numeral b", where ?'a = rat] by simp

lemma floor_rat_one_div:
  "\<lfloor>(1 :: rat) / numeral b\<rfloor> = 1 div numeral b"
  using floor_divide_of_int_eq [of 1 "numeral b", where ?'a = rat] by simp

lemma floor_rat_neg_one_div:
  "\<lfloor>- ((1 :: rat) / numeral b)\<rfloor> = - 1 div numeral b"
  using floor_divide_of_int_eq [of "- 1" "numeral b", where ?'a = rat] by simp

lemmas number_eval =
  round_double_def binade_def pow2_def round_ties_even_def Let_def
  floor_rat_numeral_div floor_rat_neg_numeral_div floor_rat_one_div floor_rat_neg_one_div
  ceiling_rat_numeral_div bitlen_one bitlen_Bit0 bitlen_Bit1
  zero_number_def one_number_def

section \<open>The binade and the rounding\<close>

text \<open>
  \<open>binade\<close> is the exponent of the power of two at or below the magnitude, and
  \<open>round_ties_even\<close> moves a value by at most one half.
\<close>

lemma pow2_nonneg: "0 \<le> e \<Longrightarrow> pow2 e = 2 ^ nat e"
  by (simp add: pow2_def)

lemma pow2_nonpos: "e \<le> 0 \<Longrightarrow> pow2 e = 1 / 2 ^ nat (- e)"
  by (cases "e = 0") (simp_all add: pow2_def)

lemma bitlen_pos: "0 < m \<Longrightarrow> 1 \<le> bitlen m"
  using bitlen_eq_zero_iff [of m] bitlen_nonneg [of m] by linarith

lemma binade_bounds:
  assumes "x \<noteq> 0"
  shows "pow2 (binade x) \<le> \<bar>x\<bar> \<and> \<bar>x\<bar> < pow2 (binade x + 1)"
proof (cases "1 \<le> \<bar>x\<bar>")
  case True
  define m where "m = \<lfloor>\<bar>x\<bar>\<rfloor>"
  define b where "b = bitlen m"
  have m: "of_int m \<le> \<bar>x\<bar>" "\<bar>x\<bar> < of_int (m + 1)"
    unfolding m_def by linarith+
  have "0 < m"
    using True by (simp add: m_def)
  then have b: "1 \<le> b" and lo: "2 ^ nat (b - 1) \<le> m" and hi: "m + 1 \<le> 2 ^ nat b"
    using bitlen_bounds [of m] bitlen_pos [of m] by (simp_all add: b_def)
  have "(2::rat) ^ nat (b - 1) = of_int (2 ^ nat (b - 1))"
    by simp
  also have "\<dots> \<le> of_int m"
    using lo by (simp only: of_int_le_iff)
  also note m(1)
  finally have 1: "pow2 (b - 1) \<le> \<bar>x\<bar>"
    using b by (simp add: pow2_nonneg)
  note m(2)
  also have "(of_int (m + 1) :: rat) \<le> of_int (2 ^ nat b)"
    using hi by (simp only: of_int_le_iff)
  also have "\<dots> = 2 ^ nat b"
    by simp
  finally have 2: "\<bar>x\<bar> < pow2 b"
    using b by (simp add: pow2_nonneg)
  have "binade x = b - 1"
    using True by (simp add: binade_def b_def m_def)
  then show ?thesis
    using 1 2 by simp
next
  case False
  define y where "y = 1 / \<bar>x\<bar>"
  define m where "m = \<lceil>y\<rceil> - 1"
  define b where "b = bitlen m"
  have x: "0 < \<bar>x\<bar>" "\<bar>x\<bar> < 1"
    using assms False by simp_all
  then have y: "1 < y"
    by (simp add: y_def)
  have m: "of_int m < y" "y \<le> of_int (m + 1)"
    unfolding m_def by linarith+
  have "1 < \<lceil>y\<rceil>"
    using y by (simp add: less_ceiling_iff)
  then have "0 < m"
    by (simp add: m_def)
  then have b: "1 \<le> b" and lo: "2 ^ nat (b - 1) \<le> m" and hi: "m + 1 \<le> 2 ^ nat b"
    using bitlen_bounds [of m] bitlen_pos [of m] by (simp_all add: b_def)
  note m(2)
  also have "(of_int (m + 1) :: rat) \<le> of_int (2 ^ nat b)"
    using hi by (simp only: of_int_le_iff)
  also have "\<dots> = 2 ^ nat b"
    by simp
  finally have "1 / \<bar>x\<bar> \<le> 2 ^ nat b"
    by (simp only: y_def)
  then have "1 \<le> 2 ^ nat b * \<bar>x\<bar>"
    using x(1) by (simp add: divide_le_eq)
  then have 1: "pow2 (- b) \<le> \<bar>x\<bar>"
    using b by (simp add: pow2_nonpos divide_le_eq mult.commute)
  have "(2::rat) ^ nat (b - 1) = of_int (2 ^ nat (b - 1))"
    by simp
  also have "\<dots> \<le> of_int m"
    using lo by (simp only: of_int_le_iff)
  also note m(1)
  finally have "2 ^ nat (b - 1) < 1 / \<bar>x\<bar>"
    by (simp only: y_def)
  then have "2 ^ nat (b - 1) * \<bar>x\<bar> < 1"
    using x(1) by (simp add: less_divide_eq)
  then have 2: "\<bar>x\<bar> < pow2 (- b + 1)"
    using b by (simp add: pow2_nonpos less_divide_eq mult.commute)
  have "binade x = - b"
    using False by (simp add: binade_def b_def m_def y_def)
  then show ?thesis
    using 1 2 by simp
qed

lemma round_ties_even_nearest: "\<bar>of_int (round_ties_even x) - x\<bar> \<le> 1 / 2"
proof -
  have "of_int \<lfloor>x\<rfloor> \<le> x" and "x < of_int \<lfloor>x\<rfloor> + 1"
    by linarith+
  then show ?thesis
    by (auto simp: round_ties_even_def Let_def)
qed

section \<open>Integers among the numbers\<close>

text \<open>
  An integer up to \<open>2\<^sup>5\<^sup>3\<close> in magnitude is a double, so \<^verbatim>\<open>+\<close> and \<^verbatim>\<open>*\<close> are the integer
  operations as long as the result stays in that range. Beyond it they are not: adding 1
  to \<open>2\<^sup>5\<^sup>3\<close> gives \<open>2\<^sup>5\<^sup>3\<close> back. Decimal fractions are rounded from the start: 0.1 + 0.2 is
  not the number 0.3.
\<close>

lemma round_ties_even_of_int: "round_ties_even (of_int k) = k"
  by (simp add: round_ties_even_def)

lemma binade_of_int: "n \<noteq> 0 \<Longrightarrow> binade (of_int n) = bitlen \<bar>n\<bar> - 1"
proof -
  assume "n \<noteq> 0"
  then have "1 \<le> \<bar>n\<bar>" by simp
  then have "(1::rat) \<le> \<bar>of_int n\<bar>"
    by (metis of_int_1 of_int_abs of_int_le_iff)
  moreover have "\<lfloor>\<bar>of_int n :: rat\<bar>\<rfloor> = \<bar>n\<bar>"
    by (metis floor_of_int of_int_abs)
  ultimately show ?thesis
    by (simp add: binade_def)
qed

lemma round_double_of_int:
  assumes "\<bar>n\<bar> \<le> 2 ^ 53"
  shows "round_double (of_int n) = Fin (of_int n)"
proof (cases "n = 0")
  case True
  then show ?thesis by (simp add: round_double_def)
next
  case False
  define b where "b = bitlen \<bar>n\<bar>"
  have pos: "0 < \<bar>n\<bar>" using False by simp
  have lo: "2 ^ nat (b - 1) \<le> \<bar>n\<bar>" and hi: "\<bar>n\<bar> < 2 ^ nat b"
    using bitlen_bounds [OF pos] by (simp_all add: b_def)
  have b1: "1 \<le> b"
    using pos bitlen_eq_zero_iff [of "\<bar>n\<bar>"] bitlen_nonneg [of "\<bar>n\<bar>"] by (simp add: b_def)
  have p: "(2::int) ^ nat (b - 1) \<le> 2 ^ 53"
    using lo assms by linarith
  have "nat (b - 1) \<le> 53"
    by (rule power_le_imp_le_exp [OF _ p]) simp
  then have b54: "b \<le> 54"
    by linarith
  have small: "\<bar>of_int n :: rat\<bar> < pow2 1024"
  proof -
    have "\<bar>of_int n :: rat\<bar> = of_int \<bar>n\<bar>" by simp
    also have "\<dots> \<le> of_int (2 ^ 53)" using assms by (simp only: of_int_le_iff)
    also have "\<dots> < pow2 1024" by (simp add: pow2_def)
    finally show ?thesis .
  qed
  show ?thesis
  proof (cases "b \<le> 53")
    case True
    define s where "s = nat (53 - b)"
    have e: "max (binade (of_int n)) (- 1022) = b - 1"
      using \<open>n \<noteq> 0\<close> b1 by (simp add: binade_of_int b_def)
    have ulp: "pow2 (b - 1 - 52) = 1 / 2 ^ s"
      using True b1 by (auto simp: pow2_def s_def)
    have "(of_int n :: rat) / (1 / 2 ^ s) = of_int (n * 2 ^ s)"
      by simp
    then have y: "of_int (round_ties_even (of_int n / pow2 (b - 1 - 52))) * pow2 (b - 1 - 52)
        = (of_int n :: rat)"
      unfolding ulp by (simp only: round_ties_even_of_int) simp
    have "round_double (of_int n) =
        (if (of_int n :: rat) = 0 then Fin 0
         else if pow2 1024 \<le> \<bar>of_int n :: rat\<bar>
           then (if 0 < (of_int n :: rat) then PosInfinity else NegInfinity)
           else Fin (of_int n))"
      unfolding round_double_def Let_def e y ..
    then show ?thesis
      using \<open>n \<noteq> 0\<close> small by simp
  next
    case False
    then have "b = 54" using b54 by simp
    then have "2 ^ 53 \<le> \<bar>n\<bar>" using lo by simp
    then have "n = 2 ^ 53 \<or> n = - (2 ^ 53)"
      using assms by linarith
    then show ?thesis
      by (elim disjE) (simp_all add: number_eval)
  qed
qed

lemma plus_exact:
  "\<bar>m + n\<bar> \<le> 2 ^ 53 \<Longrightarrow> Fin (of_int m) + Fin (of_int n) = Fin (of_int (m + n))"
  using round_double_of_int [of "m + n"] by simp

lemma times_exact:
  "\<bar>m * n\<bar> \<le> 2 ^ 53 \<Longrightarrow> Fin (of_int m) * Fin (of_int n) = Fin (of_int (m * n))"
  using round_double_of_int [of "m * n"] by simp

lemma plus_absorbs_one: "Fin (2 ^ 53) + 1 = Fin (2 ^ 53)"
  by (simp add: number_eval)

lemma tenth_plus_fifth:
  "round_double (1 / 10) + round_double (2 / 10) = Fin (1351079888211149 / 2 ^ 52)
   \<and> round_double (3 / 10) = Fin (5404319552844595 / 2 ^ 54)"
  by (simp add: number_eval)

lemma plus_one_exact:
  "0 \<le> n \<Longrightarrow> n < 2 ^ 53 \<Longrightarrow> Fin (of_int n) + 1 = Fin (of_int (n + 1))"
  using plus_exact [of n 1] by (simp add: one_number_def)

lemma foldl_plus_exact:
  assumes "0 \<le> q" and "\<forall>n\<in>set qs. 0 \<le> n" and "q + sum_list qs \<le> 2 ^ 53"
  shows "foldl (+) (Fin (of_int q)) (map (\<lambda>n. Fin (of_int n)) qs) = Fin (of_int (q + sum_list qs))"
  using assms
proof (induction qs arbitrary: q)
  case Nil
  then show ?case by simp
next
  case (Cons n qs)
  have "0 \<le> sum_list qs"
    using Cons.prems(2) by (simp add: sum_list_nonneg)
  then have "\<bar>q + n\<bar> \<le> 2 ^ 53"
    using Cons.prems by simp
  then have "Fin (of_int q) + Fin (of_int n) = Fin (of_int (q + n))"
    by (rule plus_exact)
  moreover have "foldl (+) (Fin (of_int (q + n))) (map (\<lambda>n. Fin (of_int n)) qs) =
      Fin (of_int (q + n + sum_list qs))"
    using Cons.prems by (intro Cons.IH) simp_all
  ultimately show ?case
    by (simp add: add.assoc)
qed

section \<open>Finding and updating a line\<close>

lemma find_ref_None_iff: "find_ref P xs = None \<longleftrightarrow> (\<forall>x\<in>set xs. \<not> P x)"
  by (induction xs) auto

lemma find_ref_first:
  "\<forall>x\<in>set xs. \<not> P x \<Longrightarrow> P y \<Longrightarrow> find_ref P (xs @ y # ys) = Some (length xs)"
  by (induction xs) auto

lemma addItem_new:
  assumes "\<forall>x\<in>set (items c). id_of (product x) \<noteq> id_of p"
  shows "items (addItem c p a) =
           items c @ [\<lparr>product = p, quantity = (case a of None \<Rightarrow> 1 | Some q \<Rightarrow> q)\<rparr>]"
proof -
  have "find_ref (\<lambda>item. id_of (product item) = id_of p) (items c) = None"
    using assms by (simp add: find_ref_None_iff)
  then show ?thesis
    by (simp add: addItem_def)
qed

lemma addItem_existing:
  assumes "items c = xs @ it # ys"
    and "id_of (product it) = id_of p"
    and "\<forall>x\<in>set xs. id_of (product x) \<noteq> id_of p"
  shows "items (addItem c p a) =
           xs @ it\<lparr>quantity := quantity it + (case a of None \<Rightarrow> 1 | Some q \<Rightarrow> q)\<rparr> # ys"
proof -
  have "find_ref (\<lambda>item. id_of (product item) = id_of p) (items c) = Some (length xs)"
    using assms by (simp add: find_ref_first)
  then show ?thesis
    using assms(1) by (simp add: addItem_def)
qed

lemma first_line_with_id:
  assumes "\<exists>x\<in>set xs. id_of (product x) = k"
  obtains ys it zs where "xs = ys @ it # zs" and "id_of (product it) = k"
    and "\<forall>x\<in>set ys. id_of (product x) \<noteq> k"
  using split_list_first_prop [OF assms] by blast

lemma distinct_products: "distinct (map id_of products)"
  by (simp add: products_def)

lemma find_distinct:
  "distinct (map f xs) \<Longrightarrow> p \<in> set xs \<Longrightarrow> find (\<lambda>x. f x = f p) xs = Some p"
  by (induction xs) (auto simp: image_iff)

lemma find_products: "p \<in> set products \<Longrightarrow> find (\<lambda>x. id_of x = id_of p) products = Some p"
  by (rule find_distinct [OF distinct_products])

lemma find_products_None:
  "k \<notin> id_of ` set products \<Longrightarrow> find (\<lambda>x. id_of x = k) products = None"
  by (auto simp: find_None_iff)

section \<open>The total\<close>

text \<open>
  C1. For every cart, \<open>getTotal\<close> returns the sum over the lines, in their order and from 0,
  of \<open>product.price * quantity\<close>, with the \<^verbatim>\<open>+\<close> and \<^verbatim>\<open>*\<close> of JavaScript numbers; on a cart
  without lines it returns 0.
\<close>

theorem getTotal_sum_of_lines:
  "getTotal c = foldl (+) 0 (map (\<lambda>item. price (product item) * quantity item) (items c))
   \<and> getTotal (c\<lparr>items := []\<rparr>) = 0"
  by (simp add: getTotal_def calculateTotal_def foldl_map)

section \<open>One line per product id\<close>

text \<open>
  C2. If no two lines of a cart have the same product id, then no two lines have the same
  product id after \<open>addItem\<close>, whatever the product and the quantity, and after
  \<open>removeItem\<close>, whatever the id.
\<close>

theorem unique_ids_preserved:
  assumes "distinct (map (\<lambda>item. id_of (product item)) (items c))"
  shows "distinct (map (\<lambda>item. id_of (product item)) (items (addItem c p a)))
         \<and> distinct (map (\<lambda>item. id_of (product item)) (items (removeItem c k)))"
proof
  show "distinct (map (\<lambda>item. id_of (product item)) (items (addItem c p a)))"
  proof (cases "\<exists>x\<in>set (items c). id_of (product x) = id_of p")
    case True
    then obtain ys it zs where "items c = ys @ it # zs" and "id_of (product it) = id_of p"
      and "\<forall>x\<in>set ys. id_of (product x) \<noteq> id_of p"
      by (rule first_line_with_id)
    then show ?thesis
      using assms by (simp add: addItem_existing)
  next
    case False
    then have "\<forall>x\<in>set (items c). id_of (product x) \<noteq> id_of p"
      by blast
    then show ?thesis
      using assms by (auto simp: addItem_new)
  qed
  show "distinct (map (\<lambda>item. id_of (product item)) (items (removeItem c k)))"
    using assms by (simp add: removeItem_def distinct_map_filter)
qed


theorem unique_ids_preserved_witness:
  "distinct (map (\<lambda>item. id_of (product item))
     (items \<lparr>items = [\<lparr>product = \<lparr>id_of = 1, name = ''Laptop'', price = Fin 5\<rparr>, quantity = Fin 2\<rparr>,
                      \<lparr>product = \<lparr>id_of = 3, name = ''Headphones'', price = Fin 7\<rparr>, quantity = Fin 1\<rparr>]\<rparr>))
   \<and> distinct (map (\<lambda>item. id_of (product item))
     (items (addItem
        \<lparr>items = [\<lparr>product = \<lparr>id_of = 1, name = ''Laptop'', price = Fin 5\<rparr>, quantity = Fin 2\<rparr>,
                  \<lparr>product = \<lparr>id_of = 3, name = ''Headphones'', price = Fin 7\<rparr>, quantity = Fin 1\<rparr>]\<rparr>
        \<lparr>id_of = 3, name = ''Headphones'', price = Fin 7\<rparr> (Some (Fin 4)))))
   \<and> distinct (map (\<lambda>item. id_of (product item))
     (items (removeItem
        \<lparr>items = [\<lparr>product = \<lparr>id_of = 1, name = ''Laptop'', price = Fin 5\<rparr>, quantity = Fin 2\<rparr>,
                  \<lparr>product = \<lparr>id_of = 3, name = ''Headphones'', price = Fin 7\<rparr>, quantity = Fin 1\<rparr>]\<rparr>
        1)))"
  using unique_ids_preserved
    [of "\<lparr>items = [\<lparr>product = \<lparr>id_of = 1, name = ''Laptop'', price = Fin 5\<rparr>, quantity = Fin 2\<rparr>,
                   \<lparr>product = \<lparr>id_of = 3, name = ''Headphones'', price = Fin 7\<rparr>, quantity = Fin 1\<rparr>]\<rparr>"
        "\<lparr>id_of = 3, name = ''Headphones'', price = Fin 7\<rparr>" "Some (Fin 4)" 1]
  by simp

section \<open>Adding\<close>

text \<open>
  C3. For every cart and every call \<open>addItem(product, quantity)\<close>: if a line has the
  product's id, the first such line has its quantity replaced by \<open>quantity + q\<close> (the \<^verbatim>\<open>+=\<close>
  of JavaScript numbers, with no bound or check) and every other line stays as it is, in
  place; if no line has the product's id, the line \<open>(product, quantity)\<close> is appended
  behind the lines of the cart, which stay as they are, in their order.
\<close>

theorem addItem_increments_or_appends:
  "(\<forall>xs it ys. items c = xs @ it # ys \<and> id_of (product it) = id_of p
        \<and> (\<forall>x\<in>set xs. id_of (product x) \<noteq> id_of p)
      \<longrightarrow> items (addItem c p (Some q)) = xs @ it\<lparr>quantity := quantity it + q\<rparr> # ys)
   \<and> ((\<forall>x\<in>set (items c). id_of (product x) \<noteq> id_of p)
      \<longrightarrow> items (addItem c p (Some q)) = items c @ [\<lparr>product = p, quantity = q\<rparr>])"
  by (simp add: addItem_existing addItem_new)

theorem addItem_increments_or_appends_witness:
  "items (addItem
      \<lparr>items = [\<lparr>product = \<lparr>id_of = 1, name = ''Laptop'', price = Fin 5\<rparr>, quantity = Fin 2\<rparr>,
                \<lparr>product = \<lparr>id_of = 3, name = ''Headphones'', price = Fin 7\<rparr>, quantity = Fin 1\<rparr>]\<rparr>
      \<lparr>id_of = 3, name = ''Headphones'', price = Fin 7\<rparr> (Some (Fin 4)))
   = [\<lparr>product = \<lparr>id_of = 1, name = ''Laptop'', price = Fin 5\<rparr>, quantity = Fin 2\<rparr>,
      \<lparr>product = \<lparr>id_of = 3, name = ''Headphones'', price = Fin 7\<rparr>, quantity = Fin 1 + Fin 4\<rparr>]
   \<and> items (addItem
      \<lparr>items = [\<lparr>product = \<lparr>id_of = 1, name = ''Laptop'', price = Fin 5\<rparr>, quantity = Fin 2\<rparr>]\<rparr>
      \<lparr>id_of = 3, name = ''Headphones'', price = Fin 7\<rparr> (Some (Fin 4)))
   = [\<lparr>product = \<lparr>id_of = 1, name = ''Laptop'', price = Fin 5\<rparr>, quantity = Fin 2\<rparr>,
      \<lparr>product = \<lparr>id_of = 3, name = ''Headphones'', price = Fin 7\<rparr>, quantity = Fin 4\<rparr>]"
  using addItem_increments_or_appends
    [of "\<lparr>items = [\<lparr>product = \<lparr>id_of = 1, name = ''Laptop'', price = Fin 5\<rparr>, quantity = Fin 2\<rparr>,
                   \<lparr>product = \<lparr>id_of = 3, name = ''Headphones'', price = Fin 7\<rparr>, quantity = Fin 1\<rparr>]\<rparr>"
        "\<lparr>id_of = 3, name = ''Headphones'', price = Fin 7\<rparr>" "Fin 4",
     THEN conjunct1, rule_format,
     of "[\<lparr>product = \<lparr>id_of = 1, name = ''Laptop'', price = Fin 5\<rparr>, quantity = Fin 2\<rparr>]"
        "\<lparr>product = \<lparr>id_of = 3, name = ''Headphones'', price = Fin 7\<rparr>, quantity = Fin 1\<rparr>" "[]"]
    addItem_increments_or_appends
    [of "\<lparr>items = [\<lparr>product = \<lparr>id_of = 1, name = ''Laptop'', price = Fin 5\<rparr>, quantity = Fin 2\<rparr>]\<rparr>"
        "\<lparr>id_of = 3, name = ''Headphones'', price = Fin 7\<rparr>" "Fin 4",
     THEN conjunct2]
  by simp

text \<open>
  C6. For every cart, \<open>addItem\<close> with a product whose id no line has makes the cart one
  line longer, and \<open>addItem\<close> with a product whose id some line has leaves the number of
  lines as it is.
\<close>

theorem addItem_line_count:
  "((\<forall>x\<in>set (items c). id_of (product x) \<noteq> id_of p)
      \<longrightarrow> length (items (addItem c p a)) = length (items c) + 1)
   \<and> ((\<exists>x\<in>set (items c). id_of (product x) = id_of p)
      \<longrightarrow> length (items (addItem c p a)) = length (items c))"
proof (intro conjI impI)
  assume "\<forall>x\<in>set (items c). id_of (product x) \<noteq> id_of p"
  then show "length (items (addItem c p a)) = length (items c) + 1"
    by (simp add: addItem_new)
next
  assume "\<exists>x\<in>set (items c). id_of (product x) = id_of p"
  then obtain ys it zs where "items c = ys @ it # zs" and "id_of (product it) = id_of p"
    and "\<forall>x\<in>set ys. id_of (product x) \<noteq> id_of p"
    by (rule first_line_with_id)
  then show "length (items (addItem c p a)) = length (items c)"
    by (simp add: addItem_existing)
qed

theorem addItem_line_count_witness:
  "length (items (addItem
      \<lparr>items = [\<lparr>product = \<lparr>id_of = 1, name = ''Laptop'', price = Fin 5\<rparr>, quantity = Fin 2\<rparr>]\<rparr>
      \<lparr>id_of = 3, name = ''Headphones'', price = Fin 7\<rparr> None)) = 2
   \<and> length (items (addItem
      \<lparr>items = [\<lparr>product = \<lparr>id_of = 1, name = ''Laptop'', price = Fin 5\<rparr>, quantity = Fin 2\<rparr>]\<rparr>
      \<lparr>id_of = 1, name = ''Laptop'', price = Fin 5\<rparr> (Some (Fin 6)))) = 1"
  using addItem_line_count
    [of "\<lparr>items = [\<lparr>product = \<lparr>id_of = 1, name = ''Laptop'', price = Fin 5\<rparr>, quantity = Fin 2\<rparr>]\<rparr>"
        "\<lparr>id_of = 3, name = ''Headphones'', price = Fin 7\<rparr>" None]
    addItem_line_count
    [of "\<lparr>items = [\<lparr>product = \<lparr>id_of = 1, name = ''Laptop'', price = Fin 5\<rparr>, quantity = Fin 2\<rparr>]\<rparr>"
        "\<lparr>id_of = 1, name = ''Laptop'', price = Fin 5\<rparr>" "Some (Fin 6)"]
  by simp

text \<open>
  A run of calls with one product id, on a cart whose last line has that id and whose
  other lines do not: the quantities are added to that line, call after call.
\<close>

lemma addItem_run_same_id:
  assumes "items c = xs @ [\<lparr>product = p, quantity = a\<rparr>]"
    and "\<forall>x\<in>set xs. id_of (product x) \<noteq> id_of p"
    and "\<forall>(p', q')\<in>set calls. id_of p' = id_of p"
  shows "items (foldl (\<lambda>c' (p', q'). addItem c' p' (Some q')) c calls) =
           xs @ [\<lparr>product = p, quantity = foldl (+) a (map snd calls)\<rparr>]"
  using assms
proof (induction calls arbitrary: c a)
  case Nil
  then show ?case by simp
next
  case (Cons call calls)
  obtain p' q' where call: "call = (p', q')"
    by (cases call)
  with Cons.prems have same: "id_of p' = id_of p"
    by simp
  have "items (addItem c p' (Some q')) = xs @ [\<lparr>product = p, quantity = a + q'\<rparr>]"
    using Cons.prems(1,2) same
      addItem_existing [of c xs "\<lparr>product = p, quantity = a\<rparr>" "[]" p' "Some q'"]
    by simp
  moreover have "\<forall>(p', q')\<in>set calls. id_of p' = id_of p"
    using Cons.prems(3) by simp
  ultimately have
    "items (foldl (\<lambda>c' (p', q'). addItem c' p' (Some q')) (addItem c p' (Some q')) calls) =
       xs @ [\<lparr>product = p, quantity = foldl (+) (a + q') (map snd calls)\<rparr>]"
    using Cons.prems(2) by (intro Cons.IH)
  then show ?case
    by (simp add: call)
qed

text \<open>
  C5. For every cart without a line for an id, and every run of one or more \<open>addItem\<close>
  calls whose products all have that id: afterwards the cart has exactly one line with
  that id, behind its former lines; the line holds the product of the first call, and
  its quantity is the sum \<open>q\<^sub>1 + q\<^sub>2 + \<dots> + q\<^sub>n\<close> of the quantities passed, added from left to
  right with the \<^verbatim>\<open>+\<close> of JavaScript numbers.
\<close>

theorem addItem_same_id_sums:
  assumes "\<forall>x\<in>set (items c). id_of (product x) \<noteq> id_of p"
    and "\<forall>(p', q')\<in>set calls. id_of p' = id_of p"
  shows "items (foldl (\<lambda>c' (p', q'). addItem c' p' (Some q')) c ((p, q) # calls)) =
           items c @ [\<lparr>product = p, quantity = foldl (+) q (map snd calls)\<rparr>]
         \<and> filter (\<lambda>x. id_of (product x) = id_of p)
             (items (foldl (\<lambda>c' (p', q'). addItem c' p' (Some q')) c ((p, q) # calls))) =
           [\<lparr>product = p, quantity = foldl (+) q (map snd calls)\<rparr>]"
proof -
  have "items (addItem c p (Some q)) = items c @ [\<lparr>product = p, quantity = q\<rparr>]"
    using assms(1) by (simp add: addItem_new)
  then have run:
    "items (foldl (\<lambda>c' (p', q'). addItem c' p' (Some q')) (addItem c p (Some q)) calls) =
       items c @ [\<lparr>product = p, quantity = foldl (+) q (map snd calls)\<rparr>]"
    using assms by (rule addItem_run_same_id)
  have "filter (\<lambda>x. id_of (product x) = id_of p) (items c) = []"
    using assms(1) by (simp add: filter_empty_conv)
  with run show ?thesis
    by simp
qed

theorem addItem_same_id_sums_witness:
  "items (foldl (\<lambda>c' (p', q'). addItem c' p' (Some q'))
      \<lparr>items = [\<lparr>product = \<lparr>id_of = 1, name = ''Laptop'', price = Fin 5\<rparr>, quantity = Fin 2\<rparr>]\<rparr>
      [(\<lparr>id_of = 3, name = ''Headphones'', price = Fin 7\<rparr>, Fin 1),
       (\<lparr>id_of = 3, name = ''Headphones'', price = Fin 7\<rparr>, Fin 2),
       (\<lparr>id_of = 3, name = ''Earbuds'', price = Fin 9\<rparr>, Fin 4)])
   = [\<lparr>product = \<lparr>id_of = 1, name = ''Laptop'', price = Fin 5\<rparr>, quantity = Fin 2\<rparr>,
      \<lparr>product = \<lparr>id_of = 3, name = ''Headphones'', price = Fin 7\<rparr>, quantity = Fin 7\<rparr>]"
  using addItem_same_id_sums
    [of "\<lparr>items = [\<lparr>product = \<lparr>id_of = 1, name = ''Laptop'', price = Fin 5\<rparr>, quantity = Fin 2\<rparr>]\<rparr>"
        "\<lparr>id_of = 3, name = ''Headphones'', price = Fin 7\<rparr>"
        "[(\<lparr>id_of = 3, name = ''Headphones'', price = Fin 7\<rparr>, Fin 2),
          (\<lparr>id_of = 3, name = ''Earbuds'', price = Fin 9\<rparr>, Fin 4)]"
        "Fin 1"]
  by (simp add: number_eval)

text \<open>
  With whole quantities, none negative, and a sum of at most \<open>2\<^sup>5\<^sup>3\<close>, that sum of
  JavaScript numbers is the sum of the integers.
\<close>

lemma addItem_same_id_integer_sum:
  assumes "\<forall>x\<in>set (items c). id_of (product x) \<noteq> id_of p"
    and "\<forall>(p', n)\<in>set calls. id_of p' = id_of p \<and> 0 \<le> n"
    and "0 \<le> q" and "q + sum_list (map snd calls) \<le> 2 ^ 53"
  shows "items (foldl (\<lambda>c' (p', n). addItem c' p' (Some (Fin (of_int n)))) c ((p, q) # calls)) =
           items c @ [\<lparr>product = p, quantity = Fin (of_int (q + sum_list (map snd calls)))\<rparr>]"
proof -
  define calls' where "calls' = map (\<lambda>(p', n). (p', Fin (of_int n))) calls"
  have run: "foldl (\<lambda>c' (p', n). addItem c' p' (Some (Fin (of_int n)))) c' calls =
      foldl (\<lambda>c' (p', q'). addItem c' p' (Some q')) c' calls'" for c'
    by (simp add: calls'_def foldl_map case_prod_unfold)
  have ids: "\<forall>(p', q')\<in>set calls'. id_of p' = id_of p"
    using assms(2) by (auto simp: calls'_def)
  have qs: "map snd calls' = map (\<lambda>n. Fin (of_int n)) (map snd calls)"
    by (simp add: calls'_def case_prod_unfold)
  have "items (addItem c p (Some (Fin (of_int q)))) = items c @ [\<lparr>product = p, quantity = Fin (of_int q)\<rparr>]"
    using assms(1) by (simp add: addItem_new)
  then have "items (foldl (\<lambda>c' (p', q'). addItem c' p' (Some q')) (addItem c p (Some (Fin (of_int q)))) calls') =
      items c @ [\<lparr>product = p, quantity = foldl (+) (Fin (of_int q)) (map snd calls')\<rparr>]"
    using assms(1) ids by (rule addItem_run_same_id)
  moreover have "foldl (+) (Fin (of_int q)) (map snd calls') =
      Fin (of_int (q + sum_list (map snd calls)))"
    unfolding qs using assms(2,3,4) by (intro foldl_plus_exact) auto
  ultimately show ?thesis
    by (simp add: run)
qed

section \<open>Removing\<close>

text \<open>
  C4. For every cart and every id, no line of the cart after \<open>removeItem(id)\<close> has that
  id; when no line had it, the cart after the call is the cart before it; removing the
  same id again changes nothing.
\<close>

theorem removeItem_removes_all:
  "(\<forall>item\<in>set (items (removeItem c k)). id_of (product item) \<noteq> k)
   \<and> ((\<forall>item\<in>set (items c). id_of (product item) \<noteq> k) \<longrightarrow> removeItem c k = c)
   \<and> removeItem (removeItem c k) k = removeItem c k"
  by (simp add: removeItem_def)

theorem removeItem_removes_all_witness:
  "\<lparr>product = \<lparr>id_of = 3, name = ''Headphones'', price = Fin 7\<rparr>, quantity = Fin 1\<rparr>
     \<in> set (items (removeItem
          \<lparr>items = [\<lparr>product = \<lparr>id_of = 1, name = ''Laptop'', price = Fin 5\<rparr>, quantity = Fin 2\<rparr>,
                    \<lparr>product = \<lparr>id_of = 3, name = ''Headphones'', price = Fin 7\<rparr>, quantity = Fin 1\<rparr>]\<rparr> 1))
   \<and> id_of (product \<lparr>product = \<lparr>id_of = 3, name = ''Headphones'', price = Fin 7\<rparr>, quantity = Fin 1\<rparr>) \<noteq> 1
   \<and> removeItem
      \<lparr>items = [\<lparr>product = \<lparr>id_of = 3, name = ''Headphones'', price = Fin 7\<rparr>, quantity = Fin 1\<rparr>]\<rparr> 1
   = \<lparr>items = [\<lparr>product = \<lparr>id_of = 3, name = ''Headphones'', price = Fin 7\<rparr>, quantity = Fin 1\<rparr>]\<rparr>"
  using removeItem_removes_all
    [of "\<lparr>items = [\<lparr>product = \<lparr>id_of = 1, name = ''Laptop'', price = Fin 5\<rparr>, quantity = Fin 2\<rparr>,
                   \<lparr>product = \<lparr>id_of = 3, name = ''Headphones'', price = Fin 7\<rparr>, quantity = Fin 1\<rparr>]\<rparr>" 1,
     THEN conjunct1, rule_format,
     of "\<lparr>product = \<lparr>id_of = 3, name = ''Headphones'', price = Fin 7\<rparr>, quantity = Fin 1\<rparr>"]
    removeItem_removes_all
    [of "\<lparr>items = [\<lparr>product = \<lparr>id_of = 3, name = ''Headphones'', price = Fin 7\<rparr>, quantity = Fin 1\<rparr>]\<rparr>" 1,
     THEN conjunct2, THEN conjunct1]
  by (simp add: removeItem_def)

text \<open>
  C9. For every cart and every id, the lines of the cart after \<open>removeItem(id)\<close> are the
  lines with another id, each with its product and quantity as before, in the order they
  had: a subsequence of the lines before the call.
\<close>

theorem removeItem_keeps_other_lines:
  "items (removeItem c k) = filter (\<lambda>item. id_of (product item) \<noteq> k) (items c)
   \<and> subseq (items (removeItem c k)) (items c)
   \<and> set (items (removeItem c k)) = {item \<in> set (items c). id_of (product item) \<noteq> k}"
  by (simp add: removeItem_def)

section \<open>The entry points of the page\<close>

text \<open>
  C8. For every product id that is not the id of a catalog entry, \<open>addToCart\<close> leaves the
  state as it is (the cart, and the page, which it does not redraw) and no exception
  escapes it, whatever \<^verbatim>\<open>updateCartUI\<close> would do.
\<close>

theorem addToCart_unknown_id:
  assumes "productId \<notin> id_of ` set products"
  shows "addToCart updateCartUI st productId = (st, None)"
  using assms by (simp add: addToCart_def find_products_None)

theorem addToCart_unknown_id_witness:
  "(7::int) \<notin> id_of ` set products
   \<and> addToCart (\<lambda>c u. (Suc u, Some ''TypeError''))
         \<lparr>myCart = \<lparr>items = [\<lparr>product = \<lparr>id_of = 3, name = ''Headphones'', price = Fin 7\<rparr>,
                                quantity = Fin 1\<rparr>]\<rparr>, page = (0::nat)\<rparr> 7
     = (\<lparr>myCart = \<lparr>items = [\<lparr>product = \<lparr>id_of = 3, name = ''Headphones'', price = Fin 7\<rparr>,
                                quantity = Fin 1\<rparr>]\<rparr>, page = 0\<rparr>, None)"
proof -
  have h: "(7::int) \<notin> id_of ` set products"
    by (simp add: products_def)
  show ?thesis
    using h addToCart_unknown_id [OF h] by simp
qed

text \<open>
  C10. For every catalog entry, \<open>addToCart\<close> with its id calls \<open>addItem\<close> with that entry
  and no quantity, so with the default 1: on a cart without a line for the id it appends
  the line \<open>(entry, 1)\<close>; on a cart with such a line it replaces the quantity \<open>n\<close> of the
  first one by \<open>n + 1\<close> (the \<^verbatim>\<open>+\<close> of JavaScript numbers) and leaves the other lines as
  they are.
\<close>

theorem addToCart_adds_one:
  assumes "p \<in> set products"
  shows "myCart (fst (addToCart updateCartUI st (id_of p))) = addItem (myCart st) p None
    \<and> ((\<forall>x\<in>set (items (myCart st)). id_of (product x) \<noteq> id_of p)
        \<longrightarrow> items (myCart (fst (addToCart updateCartUI st (id_of p)))) =
              items (myCart st) @ [\<lparr>product = p, quantity = 1\<rparr>])
    \<and> (\<forall>xs it ys. items (myCart st) = xs @ it # ys \<and> id_of (product it) = id_of p
          \<and> (\<forall>x\<in>set xs. id_of (product x) \<noteq> id_of p)
        \<longrightarrow> items (myCart (fst (addToCart updateCartUI st (id_of p)))) =
              xs @ it\<lparr>quantity := quantity it + 1\<rparr> # ys)"
proof -
  have cart: "myCart (fst (addToCart updateCartUI st (id_of p))) = addItem (myCart st) p None"
    using assms by (simp add: addToCart_def find_products Let_def split: prod.split)
  show ?thesis
    unfolding cart by (simp add: addItem_new addItem_existing)
qed

theorem addToCart_adds_one_witness:
  "\<lparr>id_of = 1, name = ''Laptop'', price = round_double (99999 / 100)\<rparr> \<in> set products
   \<and> items (myCart (fst (addToCart (\<lambda>c u. (Suc u, None :: string option))
        \<lparr>myCart = new_ShoppingCart, page = (0::nat)\<rparr> 1))) =
       [\<lparr>product = \<lparr>id_of = 1, name = ''Laptop'', price = round_double (99999 / 100)\<rparr>,
         quantity = 1\<rparr>]"
proof -
  have h: "\<lparr>id_of = 1, name = ''Laptop'', price = round_double (99999 / 100)\<rparr> \<in> set products"
    by (simp add: products_def)
  show ?thesis
    using h addToCart_adds_one [OF h, of "\<lambda>c u. (Suc u, None :: string option)"
        "\<lparr>myCart = new_ShoppingCart, page = (0::nat)\<rparr>", THEN conjunct2, THEN conjunct1]
    by (simp add: new_ShoppingCart_def)
qed

section \<open>The scenario\<close>

lemma Laptop_fields:
  "id_of Laptop = 1" "price Laptop = Fin (4398002530638889 / 4398046511104)"
  by (simp_all add: Laptop_def products_def number_eval)

lemma Headphones_fields:
  "id_of Headphones = 3" "price Headphones = Fin (879565321755689 / 4398046511104)"
  by (simp_all add: Headphones_def products_def number_eval)

lemma step1_items: "items step1 = [\<lparr>product = Laptop, quantity = Fin 1\<rparr>]"
  by (simp add: step1_def new_ShoppingCart_def addItem_def one_number_def)

lemma step2_items: "items step2 = [\<lparr>product = Laptop, quantity = Fin 2\<rparr>]"
  by (simp add: step2_def addItem_def step1_items number_eval)

lemma step3_items:
  "items step3 = [\<lparr>product = Laptop, quantity = Fin 2\<rparr>, \<lparr>product = Headphones, quantity = Fin 1\<rparr>]"
  by (simp add: step3_def addItem_def step2_items Laptop_fields Headphones_fields one_number_def)

lemma step4_items: "items step4 = [\<lparr>product = Headphones, quantity = Fin 1\<rparr>]"
  by (simp add: step4_def removeItem_def step3_items Laptop_fields Headphones_fields)

lemma step5_step4: "step5 = step4"
  by (simp add: step5_def removeItem_def step4_items Laptop_fields Headphones_fields)

lemma step1_total: "getTotal step1 = Fin (4398002530638889 / 4398046511104)"
  by (simp add: getTotal_def calculateTotal_def step1_items Laptop_fields number_eval)

lemma step2_total: "getTotal step2 = Fin (4398002530638889 / 2199023255552)"
  by (simp add: getTotal_def calculateTotal_def step2_items Laptop_fields number_eval)

lemma step3_total: "getTotal step3 = Fin (2418892595758367 / 1099511627776)"
  by (simp add: getTotal_def calculateTotal_def step3_items Laptop_fields Headphones_fields
      number_eval)

lemma step4_total: "getTotal step4 = Fin (879565321755689 / 4398046511104)"
  by (simp add: getTotal_def calculateTotal_def step4_items Headphones_fields number_eval)

text \<open>
  C7, as the code has it. From a new cart, with the catalog's Laptop (999.99) and
  Headphones (199.99): after \<open>addItem(Laptop, 1)\<close> the total is the number 999.99; after
  \<open>addItem(Laptop, 1)\<close> again there is one line, with quantity 2, and the total is the
  number 1999.98; after \<open>addItem(Headphones, 1)\<close> there are two lines and the total is
  \<open>2418892595758367 / 2\<^sup>4\<^sup>0\<close> (2199.9700000000003, the double next above the number
  2199.97), which \<^verbatim>\<open>toFixed(2)\<close> prints as 2199.97; after \<open>removeItem(1)\<close> the one line
  left is Headphones and the total is the number 199.99; after \<open>removeItem(1)\<close> again the
  cart is the same and the total is the number 199.99.
\<close>

theorem scenario_totals:
  "price Laptop = round_double (99999 / 100) \<and> price Headphones = round_double (19999 / 100)
   \<and> getTotal step1 = round_double (99999 / 100)
   \<and> items step2 = [\<lparr>product = Laptop, quantity = Fin 2\<rparr>]
   \<and> getTotal step2 = round_double (199998 / 100)
   \<and> length (items step3) = 2
   \<and> getTotal step3 = Fin (2418892595758367 / 2 ^ 40)
   \<and> toFixed2 (getTotal step3) = Some (219997 / 100)
   \<and> items step4 = [\<lparr>product = Headphones, quantity = Fin 1\<rparr>]
   \<and> getTotal step4 = round_double (19999 / 100)
   \<and> step5 = step4
   \<and> getTotal step5 = round_double (19999 / 100)"
  by (simp add: Laptop_fields Headphones_fields step1_total step2_items step2_total step3_items
      step3_total step4_items step4_total step5_step4 number_eval)

text \<open>
  C7 as the specification states it fails at the third step: the total of the two lines
  is not the number 2199.97, neither the double that the literal denotes nor the decimal
  itself.
\<close>

theorem scenario_total_is_not_2199_97:
  "getTotal step3 \<noteq> round_double (219997 / 100) \<and> getTotal step3 \<noteq> Fin (219997 / 100)"
  by (simp add: step3_total number_eval)

end
